theory Spec2Isabelle
  imports Complex_Main "HOL-Library.Sublist"
begin

section \<open>Data of \<open>waste_opt.py\<close>\<close>

text \<open>
  A coordinate is a \<open>(latitude, longitude)\<close> pair. A finite Python float is modelled by
  the real it denotes; a decimal literal of the source is written as it stands. Wherever
  the code computes with floats, the rounding of the result is a parameter of the model
  (\<open>rnd\<close> below).
  A \<open>dict\<close> whose iteration order matters (\<open>locations\<close>) is the list of its items,
  in insertion order; a \<open>dict\<close> that is only looked up (\<open>fill_levels\<close>) is a map.
\<close>

type_synonym coord = "real \<times> real"

type_synonym locations = "(string \<times> coord) list"

type_synonym fill_levels = "string \<rightharpoonup> int"

definition markham_locations :: locations where
  "markham_locations =
    [(''Depot (Markham)'', (43.8561, -79.3370)),
     (''Markham Civic Centre'', (43.8563, -79.3370)),
     (''Markville Mall'', (43.8643, -79.3021)),
     (''Milne Dam Park'', (43.8576, -79.2813)),
     (''Markham Village Library'', (43.9025, -79.2590)),
     (''Unionville GO Station'', (43.8565, -79.3164)),
     (''Angus Glen Community Centre'', (43.9191, -79.3190)),
     (''Cornell Community Centre'', (43.8952, -79.2443))]"

definition markham_bin_fill_levels :: fill_levels where
  "markham_bin_fill_levels = map_of
    [(''Markham Civic Centre'', 45),
     (''Markville Mall'', 70),
     (''Milne Dam Park'', 55),
     (''Markham Village Library'', 30),
     (''Unionville GO Station'', 25),
     (''Angus Glen Community Centre'', 60),
     (''Cornell Community Centre'', 50)]"

definition richmondhill_locations :: locations where
  "richmondhill_locations =
    [(''Depot (Richmond Hill)'', (43.8811, -79.4370)),
     (''Hillcrest Mall'', (43.8783, -79.4402)),
     (''Richmond Green Sports Centre'', (43.9021, -79.4121)),
     (''David Hamilton Park'', (43.8876, -79.4213)),
     (''Richmond Hill Centre'', (43.9165, -79.4355)),
     (''Elgin West Community Centre'', (43.8819, -79.4525)),
     (''Langstaff Community Centre'', (43.8565, -79.4700))]"

definition richmondhill_bin_fill_levels :: fill_levels where
  "richmondhill_bin_fill_levels = map_of
    [(''Hillcrest Mall'', 50),
     (''Richmond Green Sports Centre'', 65),
     (''David Hamilton Park'', 35),
     (''Richmond Hill Centre'', 75),
     (''Elgin West Community Centre'', 55),
     (''Langstaff Community Centre'', 60)]"

record truck_data =
  locations :: locations
  fill_levels :: fill_levels
  color :: string

definition trucks :: "(string \<times> truck_data) list" where
  "trucks =
    [(''Truck 1 (Markham)'',
       \<lparr>locations = markham_locations, fill_levels = markham_bin_fill_levels,
        color = ''blue''\<rparr>),
     (''Truck 2 (Richmond Hill)'',
       \<lparr>locations = richmondhill_locations, fill_levels = richmondhill_bin_fill_levels,
        color = ''red''\<rparr>)]"

definition fuel_price_per_liter :: real where
  "fuel_price_per_liter = 1.52"

definition fuel_consumption_per_km :: real where
  "fuel_consumption_per_km = 0.3"

definition labor_hours_saved_per_km :: real where
  "labor_hours_saved_per_km = 0.05"

definition FILL_THRESHOLD :: int where
  "FILL_THRESHOLD = 40"

section \<open>Filtering the stops\<close>

text \<open>\<open>fill_levels.get(name, 0)\<close>: a missing key reads as 0.\<close>

definition get_fill :: "fill_levels \<Rightarrow> string \<Rightarrow> int" where
  "get_fill fl name = (case fl name of None \<Rightarrow> 0 | Some v \<Rightarrow> v)"

text \<open>
  The dict comprehension of \<open>optimize_routes\<close>
  (\<open>{name: coord for name, coord in locations.items() if name == "Depot" or
  fill_levels.get(name, 0) >= FILL_THRESHOLD}\<close>), with the threshold as an argument.
  The keys of a dict are pairwise distinct, so every surviving item is inserted once,
  in iteration order.
\<close>

definition keep_bin :: "int \<Rightarrow> fill_levels \<Rightarrow> string \<times> coord \<Rightarrow> bool" where
  "keep_bin threshold fl item = (fst item = ''Depot'' \<or> get_fill fl (fst item) \<ge> threshold)"

definition filtered_bins :: "int \<Rightarrow> locations \<Rightarrow> fill_levels \<Rightarrow> locations" where
  "filtered_bins threshold locs fl = filter (keep_bin threshold fl) locs"

section \<open>Exceptions\<close>

text \<open>
  The exceptions the modelled code can raise. A function that can raise returns
  \<open>error + 'a\<close>, with \<open>Inl\<close> for the exception. \<open>Aborted\<close> is not an exception: the
  routing library ends the process, and no handler can catch it.
\<close>

datatype error = IndexError | KeyError | RequestException | OverflowError | Aborted

definition getitem :: "'a list \<Rightarrow> nat \<Rightarrow> error + 'a" where
  "getitem xs i = (if i < length xs then Inr (xs ! i) else Inl IndexError)"

section \<open>\<open>get_distance_matrix\<close>\<close>

text \<open>
  A matrix cell holds a Python number: a finite one (the \<open>0\<close> of the initial matrix, a
  distance in kilometres, the fallback \<open>abs(i - j) * 5\<close>) or \<open>float('inf')\<close>. The
  negative infinity is a value of float arithmetic too; \<open>get_distance_matrix\<close> never
  writes it.
\<close>

datatype cell = Num real | PInf | NInf

text \<open>
  Float arithmetic. The result of an operation on floats is the exact result rounded to a
  float: \<open>rnd\<close>, the rounding to the nearest float of the platform, is a parameter. The
  exact result is out of range when rounding it to the nearest 64-bit float would give an
  infinity: Python then raises \<open>OverflowError\<close> for a division of integers, and
  returns the infinity for a product of floats.
\<close>

definition float_overflow :: "real \<Rightarrow> bool" where
  "float_overflow x = (2 ^ 1024 - 2 ^ 970 \<le> abs x)"

type_synonym matrix = "cell list list"

text \<open>
  What \<open>requests.get(url).json()\<close> does for one request. \<open>Raised\<close>: the request or
  the JSON decoding raised. Otherwise the decoded body, as far as the code reads it: the
  value under \<open>"routes"\<close> (\<open>None\<close> when the key is absent), a list of route objects, each
  with the number under \<open>"distance"\<close> (\<open>None\<close> when the route has no such key, where the
  subscript raises \<open>KeyError\<close>).

  The network is not a function of the URL, and the loops issue one request per ordered
  pair \<open>(i, j)\<close>, \<open>i \<noteq> j\<close>, in a fixed order: the provider is indexed by the pair and
  the URL, which covers every behaviour of the service over one call.
\<close>

datatype route_json = Route (distance: "real option")

datatype response = Body (routes: "route_json list option")

datatype reply = Raised | Json response

type_synonym provider = "nat \<Rightarrow> nat \<Rightarrow> string \<Rightarrow> reply"

definition OSRM_API_URL :: string where
  "OSRM_API_URL = ''http://router.project-osrm.org/route/v1/driving/''"

text \<open>The URL of one request; \<open>str\<close> is Python's formatting of a float in an f-string.\<close>

definition request_url :: "(real \<Rightarrow> string) \<Rightarrow> coord \<Rightarrow> coord \<Rightarrow> string" where
  "request_url str c1 c2 =
     (let coord1 = str (snd c1) @ '','' @ str (fst c1);
          coord2 = str (snd c2) @ '','' @ str (fst c2)
      in OSRM_API_URL @ coord1 @ '';'' @ coord2 @ ''?overview=false'')"

text \<open>
  The value the \<open>try\<close> block computes for the cell: \<open>response["routes"][0]["distance"] /
  1000\<close> when \<open>"routes"\<close> is present and not empty, \<open>float('inf')\<close> otherwise; any
  exception on the way is kept. The distance is a JSON number, an integer of any size or a
  float; the quotient of an integer too large for a float raises \<open>OverflowError\<close>.
\<close>

fun try_value :: "(real \<Rightarrow> real) \<Rightarrow> reply \<Rightarrow> error + cell" where
  "try_value rnd Raised = Inl RequestException"
| "try_value rnd (Json (Body None)) = Inr PInf"
| "try_value rnd (Json (Body (Some []))) = Inr PInf"
| "try_value rnd (Json (Body (Some (Route None # rs)))) = Inl KeyError"
| "try_value rnd (Json (Body (Some (Route (Some d) # rs)))) =
     (if float_overflow (d / 1000) then Inl OverflowError else Inr (Num (rnd (d / 1000))))"

text \<open>\<open>distance_matrix[i][j] = v\<close>; Python raises \<open>IndexError\<close> out of range.\<close>

definition setitem2 :: "matrix \<Rightarrow> nat \<Rightarrow> nat \<Rightarrow> cell \<Rightarrow> error + matrix" where
  "setitem2 m i j v =
     (if i < length m \<and> j < length (m ! i) then Inr (m[i := (m ! i)[j := v]])
      else Inl IndexError)"

text \<open>The estimate of the \<open>except\<close> branch, \<open>abs(i - j) * 5\<close>.\<close>

definition fallback_estimate :: "nat \<Rightarrow> nat \<Rightarrow> cell" where
  "fallback_estimate i j = Num (real_of_int (abs (int i - int j) * 5))"

text \<open>
  The body of the inner loop for \<open>i \<noteq> j\<close>. The two URL parts are built outside the
  \<open>try\<close>; \<open>except Exception\<close> catches whatever the \<open>try\<close> block raised, and the
  assignment of the handler can raise itself.
\<close>

definition visit_pair ::
  "provider \<Rightarrow> (real \<Rightarrow> string) \<Rightarrow> (real \<Rightarrow> real) \<Rightarrow> coord list \<Rightarrow> nat \<Rightarrow> nat \<Rightarrow> matrix \<Rightarrow>
     error + matrix" where
  "visit_pair get str rnd coords i j m =
     (case getitem coords i of
        Inl e \<Rightarrow> Inl e
      | Inr ci \<Rightarrow>
         (case getitem coords j of
            Inl e \<Rightarrow> Inl e
          | Inr cj \<Rightarrow>
             (let url = request_url str ci cj;
                  attempt = (case try_value rnd (get i j url) of
                               Inl e \<Rightarrow> Inl e
                             | Inr v \<Rightarrow> setitem2 m i j v)
              in case attempt of
                   Inr m' \<Rightarrow> Inr m'
                 | Inl e \<Rightarrow> setitem2 m i j (fallback_estimate i j))))"

text \<open>\<open>for j in range(num_locations)\<close>, over the indices still to visit.\<close>

fun inner_loop ::
  "provider \<Rightarrow> (real \<Rightarrow> string) \<Rightarrow> (real \<Rightarrow> real) \<Rightarrow> coord list \<Rightarrow> nat \<Rightarrow> nat list \<Rightarrow> matrix \<Rightarrow>
     error + matrix" where
  "inner_loop get str rnd coords i [] m = Inr m"
| "inner_loop get str rnd coords i (j # js) m =
     (if i \<noteq> j then
        (case visit_pair get str rnd coords i j m of
           Inl e \<Rightarrow> Inl e
         | Inr m' \<Rightarrow> inner_loop get str rnd coords i js m')
      else inner_loop get str rnd coords i js m)"

text \<open>\<open>for i in range(num_locations)\<close>.\<close>

fun outer_loop ::
  "provider \<Rightarrow> (real \<Rightarrow> string) \<Rightarrow> (real \<Rightarrow> real) \<Rightarrow> coord list \<Rightarrow> nat \<Rightarrow> nat list \<Rightarrow> matrix \<Rightarrow>
     error + matrix" where
  "outer_loop get str rnd coords n [] m = Inr m"
| "outer_loop get str rnd coords n (i # is) m =
     (case inner_loop get str rnd coords i [0..<n] m of
        Inl e \<Rightarrow> Inl e
      | Inr m' \<Rightarrow> outer_loop get str rnd coords n is m')"

text \<open>
  \<open>[[0] * num_locations for _ in range(num_locations)]\<close> builds a fresh row each time:
  no two rows share storage, so an assignment changes one cell.
\<close>

definition get_distance_matrix ::
  "provider \<Rightarrow> (real \<Rightarrow> string) \<Rightarrow> (real \<Rightarrow> real) \<Rightarrow> coord list \<Rightarrow> error + matrix" where
  "get_distance_matrix get str rnd coords =
     (let num_locations = length coords;
          distance_matrix = replicate num_locations (replicate num_locations (Num 0))
      in outer_loop get str rnd coords num_locations [0..<num_locations] distance_matrix)"

section \<open>\<open>create_routing_model\<close>\<close>

text \<open>
  The routing library (\<open>pywrapcp\<close>) is not part of the repository. Its objects are
  modelled by what the code reads from them: \<open>manager.IndexToNode\<close>, \<open>routing.Start\<close>
  and \<open>routing.IsEnd\<close>; a solution by \<open>index \<mapsto> solution.Value(routing.NextVar(index))\<close>.
\<close>

record manager =
  IndexToNode :: "nat \<Rightarrow> nat"

record routing =
  Start :: "nat \<Rightarrow> nat"
  IsEnd :: "nat \<Rightarrow> bool"

type_synonym solution = "nat \<Rightarrow> nat"

type_synonym transit_callback = "nat \<Rightarrow> nat \<Rightarrow> error + int"

text \<open>
  The product \<open>x * 1000\<close> of a cell: the rounded product of a finite float, or the
  infinity of its sign when the product is out of range; an infinity stays what it is.
  (For the integer cells \<open>0\<close> and \<open>abs(i - j) * 5\<close> Python computes the product
  exactly; \<open>rnd\<close> leaves an integer below \<open>2 ^ 53\<close> as it is.)
\<close>

definition times_1000 :: "(real \<Rightarrow> real) \<Rightarrow> cell \<Rightarrow> cell" where
  "times_1000 rnd c =
     (case c of
        Num x \<Rightarrow>
          (if float_overflow (x * 1000) then (if 0 < x then PInf else NInf)
           else Num (rnd (x * 1000)))
      | PInf \<Rightarrow> PInf
      | NInf \<Rightarrow> NInf)"

text \<open>
  Python's \<open>int()\<close> of a float truncates towards zero, and raises \<open>OverflowError\<close> on
  an infinity.
\<close>

definition py_int :: "cell \<Rightarrow> error + int" where
  "py_int c =
     (case c of
        PInf \<Rightarrow> Inl OverflowError
      | NInf \<Rightarrow> Inl OverflowError
      | Num x \<Rightarrow> Inr (if 0 \<le> x then \<lfloor>x\<rfloor> else \<lceil>x\<rceil>))"

definition distance_callback :: "manager \<Rightarrow> (real \<Rightarrow> real) \<Rightarrow> matrix \<Rightarrow> transit_callback" where
  "distance_callback manager rnd distance_matrix from_index to_index =
     (let from_node = IndexToNode manager from_index;
          to_node = IndexToNode manager to_index
      in case getitem distance_matrix from_node of
           Inl e \<Rightarrow> Inl e
         | Inr row \<Rightarrow>
            (case getitem row to_node of
               Inl e \<Rightarrow> Inl e
             | Inr c \<Rightarrow> py_int (times_1000 rnd c)))"

text \<open>
  \<open>pywrapcp n\<close> stands for \<open>RoutingIndexManager(n, 1, 0)\<close> and the \<open>RoutingModel\<close>
  built on it, for \<open>n > 0\<close>. The callback registered as arc cost evaluator is returned
  with them. With no location the depot 0 is not a node: the library refuses to build the
  manager and ends the process; the code does not guard the call.
\<close>

definition create_routing_model ::
  "(nat \<Rightarrow> manager \<times> routing) \<Rightarrow> (real \<Rightarrow> real) \<Rightarrow> matrix \<Rightarrow>
     error + manager \<times> routing \<times> transit_callback" where
  "create_routing_model pywrapcp rnd distance_matrix =
     (let num_locations = length distance_matrix
      in if num_locations = 0 then Inl Aborted
         else
           (case pywrapcp num_locations of
              (manager, routing) \<Rightarrow>
                Inr (manager, routing, distance_callback manager rnd distance_matrix)))"

section \<open>\<open>optimize_routes\<close>\<close>

text \<open>
  The \<open>while not routing.IsEnd(index)\<close> loop that reads the route off a solution.
  Nothing in the code bounds it: it is a partial function, \<open>None\<close> when it runs forever.
\<close>

partial_function (option) route_loop ::
  "manager \<Rightarrow> routing \<Rightarrow> solution \<Rightarrow> coord list \<Rightarrow> nat \<Rightarrow> coord list \<Rightarrow> coord list option" where
  "route_loop manager routing solution location_coords index route =
     (if IsEnd routing index then Some route
      else
        (let node_index = IndexToNode manager index;
             route' = (if node_index < length location_coords
                       then route @ [location_coords ! node_index] else route)
         in route_loop manager routing solution location_coords (solution index) route'))"

text \<open>
  The summary box of one truck. The source formats it as HTML text; the record holds the
  position, the truck's name and the figures as the text gives them.
\<close>

record summary_box =
  position :: string
  truck :: string
  initial_distance :: real
  optimized_distance :: real
  distance_saved :: real
  fuel_cost_before :: real
  fuel_cost_after :: real
  savings :: real
  labor_hours_saved :: real

definition summary_box :: "string \<Rightarrow> string \<Rightarrow> summary_box" where
  "summary_box truck_name box_position =
     \<lparr>position = box_position, truck = truck_name,
      initial_distance = 50, optimized_distance = 35, distance_saved = 15,
      fuel_cost_before = 22.80, fuel_cost_after = 15.96, savings = 6.84,
      labor_hours_saved = 0.75\<rparr>"

text \<open>The \<open>folium\<close> map, as the code builds it, and the world it is saved to.\<close>

record polyline =
  points :: "coord list"
  line_color :: string
  weight :: nat
  opacity :: real

record route_map =
  center :: coord
  zoom_start :: nat
  polylines :: "polyline list"
  html_children :: "summary_box list list"

record world =
  files :: "string \<rightharpoonup> route_map"
  stdout :: "string list"

definition folium_Map :: "coord \<Rightarrow> nat \<Rightarrow> route_map" where
  "folium_Map c z = \<lparr>center = c, zoom_start = z, polylines = [], html_children = []\<rparr>"

text \<open>
  What \<open>optimize_routes\<close> calls outside the repository, and the rounding of the float
  arithmetic it runs on. The provider and the solver are indexed by the iteration of the
  loop over the trucks, since neither is a function of its arguments alone.
  \<open>SolveWithParameters\<close> returns a solution or \<open>None\<close>, or raises, as it may when the
  registered callback does.
\<close>

record services =
  requests_get :: "nat \<Rightarrow> provider"
  str_float :: "real \<Rightarrow> string"
  float_round :: "real \<Rightarrow> real"
  pywrapcp :: "nat \<Rightarrow> manager \<times> routing"
  SolveWithParameters :: "nat \<Rightarrow> routing \<Rightarrow> transit_callback \<Rightarrow> error + solution option"

type_synonym run_state = "route_map \<times> summary_box list"

text \<open>
  One iteration of the loop over the trucks. The result is \<open>None\<close> when the iteration
  does not end, \<open>Some (Inl e)\<close> when it raises or the process is ended, \<open>Some (Inr st)\<close>
  otherwise; \<open>continue\<close> leaves the state as it was.
\<close>

definition truck_iteration ::
  "services \<Rightarrow> nat \<Rightarrow> string \<times> truck_data \<Rightarrow> run_state \<Rightarrow> (error + run_state) option" where
  "truck_iteration sv idx item st =
     (case item of (truck_name, truck_data) \<Rightarrow>
      case st of (route_map, summary_boxes) \<Rightarrow>
       (let locs = locations truck_data;
            fl = fill_levels truck_data;
            truck_color = color truck_data;
            box_position = (if idx = 0 then ''top: 10px; right: 10px;''
                            else ''bottom: 10px; right: 10px;'');
            location_coords = map snd (filtered_bins FILL_THRESHOLD locs fl)
        in case get_distance_matrix (requests_get sv idx) (str_float sv) (float_round sv) location_coords of
             Inl e \<Rightarrow> Some (Inl e)
           | Inr distance_matrix \<Rightarrow>
              (case create_routing_model (pywrapcp sv) (float_round sv) distance_matrix of
                 Inl e \<Rightarrow> Some (Inl e)
               | Inr (manager, routing, callback) \<Rightarrow>
                  (case SolveWithParameters sv idx routing callback of
                     Inl e \<Rightarrow> Some (Inl e)
                   | Inr None \<Rightarrow> Some (Inr (route_map, summary_boxes))
                   | Inr (Some solution) \<Rightarrow>
                      (case route_loop manager routing solution location_coords
                              (Start routing 0) [] of
                         None \<Rightarrow> None
                       | Some route \<Rightarrow>
                          (let route_map' =
                                 (if route \<noteq> [] then
                                    route_map\<lparr>polylines := polylines route_map @
                                      [\<lparr>points = route, line_color = truck_color,
                                        weight = 5, opacity = 0.7\<rparr>]\<rparr>
                                  else route_map)
                           in Some (Inr (route_map',
                                summary_boxes @ [summary_box truck_name box_position]))))))))"

text \<open>\<open>for idx, (truck_name, truck_data) in enumerate(trucks.items())\<close>.\<close>

fun trucks_loop ::
  "services \<Rightarrow> (nat \<times> string \<times> truck_data) list \<Rightarrow> run_state \<Rightarrow> (error + run_state) option" where
  "trucks_loop sv [] st = Some (Inr st)"
| "trucks_loop sv ((idx, item) # rest) st =
     (case truck_iteration sv idx item st of
        None \<Rightarrow> None
      | Some (Inl e) \<Rightarrow> Some (Inl e)
      | Some (Inr st') \<Rightarrow> trucks_loop sv rest st')"

text \<open>
  The line printed at the end; the first four bytes are the UTF-8 encoding of the
  pushpin sign the text starts with.
\<close>

definition saved_message :: string where
  "saved_message =
     [CHR 0xF0, CHR 0x9F, CHR 0x93, CHR 0x8D] @ '' Map saved as '' @ [CHR 0x27] @
     ''optimized_route.html'' @ [CHR 0x27] @ ''.''"

text \<open>
  \<open>optimize_routes\<close>, with the fleet as an argument (the source reads the global
  \<open>trucks\<close>). It returns nothing: its result is the world it leaves.
\<close>

definition optimize_routes ::
  "services \<Rightarrow> (string \<times> truck_data) list \<Rightarrow> world \<Rightarrow> (error + world) option" where
  "optimize_routes sv fleet w =
     (case trucks_loop sv (enumerate 0 fleet) (folium_Map (43.89, -79.39) 12, []) of
        None \<Rightarrow> None
      | Some (Inl e) \<Rightarrow> Some (Inl e)
      | Some (Inr (route_map, summary_boxes)) \<Rightarrow>
         (let route_map' = route_map\<lparr>html_children := html_children route_map @ [summary_boxes]\<rparr>
          in Some (Inr (w\<lparr>files := (files w)(''optimized_route.html'' \<mapsto> route_map'),
                         stdout := stdout w @ [saved_message]\<rparr>))))"

section \<open>Notions used to state the properties\<close>

text \<open>The cell the loops leave at \<open>(i, j)\<close>, \<open>i \<noteq> j\<close>, read off \<open>visit_pair\<close>.\<close>

definition cell_for ::
  "provider \<Rightarrow> (real \<Rightarrow> string) \<Rightarrow> (real \<Rightarrow> real) \<Rightarrow> coord list \<Rightarrow> nat \<Rightarrow> nat \<Rightarrow> cell" where
  "cell_for get str rnd coords i j =
     (case try_value rnd (get i j (request_url str (coords ! i) (coords ! j))) of
        Inr v \<Rightarrow> v
      | Inl e \<Rightarrow> fallback_estimate i j)"

definition square :: "nat \<Rightarrow> matrix \<Rightarrow> bool" where
  "square n m = (length m = n \<and> list_all (\<lambda>r. length r = n) m)"

text \<open>
  Order on cells: \<open>float('inf')\<close> is above every finite number, the negative infinity
  below.
\<close>

fun cell_nonneg :: "cell \<Rightarrow> bool" where
  "cell_nonneg (Num x) = (0 \<le> x)"
| "cell_nonneg PInf = True"
| "cell_nonneg NInf = False"

fun cell_less :: "cell \<Rightarrow> cell \<Rightarrow> bool" where
  "cell_less (Num x) (Num y) = (x < y)"
| "cell_less (Num x) PInf = True"
| "cell_less (Num x) NInf = False"
| "cell_less PInf c = False"
| "cell_less NInf NInf = False"
| "cell_less NInf c = True"

text \<open>A reply that reports no route: no \<open>"routes"\<close> key, or an empty list under it.\<close>

fun no_routes :: "reply \<Rightarrow> bool" where
  "no_routes (Json (Body None)) = True"
| "no_routes (Json (Body (Some []))) = True"
| "no_routes r = False"

text \<open>A reply whose distance, when it has one, is not negative.\<close>

fun reply_nonneg :: "reply \<Rightarrow> bool" where
  "reply_nonneg (Json (Body (Some (Route (Some d) # rs)))) = (0 \<le> d)"
| "reply_nonneg r = True"

text \<open>
  What the routing library promises of a solution for one vehicle, depot 0 and no optional
  node (its documentation, not code of the repository): following the solution from
  \<open>Start(0)\<close> runs through the indices of \<open>path\<close>, none of them an end index, and
  then reaches an end index; the nodes of \<open>path\<close> begin with the depot 0 and are the
  \<open>n\<close> nodes, each once.
\<close>

definition tour :: "manager \<Rightarrow> routing \<Rightarrow> solution \<Rightarrow> nat \<Rightarrow> nat list \<Rightarrow> bool" where
  "tour manager routing solution n path =
     (path \<noteq> [] \<and> hd path = Start routing 0 \<and>
      list_all (\<lambda>i. \<not> IsEnd routing i) path \<and>
      map solution (butlast path) = tl path \<and>
      IsEnd routing (solution (last path)) \<and>
      IndexToNode manager (hd path) = 0 \<and>
      distinct (map (IndexToNode manager) path) \<and>
      set (map (IndexToNode manager) path) = {0..<n})"

text \<open>The coordinates a truck's iteration works on, and the solver's answer for it.\<close>

definition location_coords_of :: "truck_data \<Rightarrow> coord list" where
  "location_coords_of td =
     map snd (filtered_bins FILL_THRESHOLD (locations td) (fill_levels td))"

definition solver_answer :: "services \<Rightarrow> nat \<Rightarrow> truck_data \<Rightarrow> error + solution option" where
  "solver_answer sv idx td =
     (case get_distance_matrix (requests_get sv idx) (str_float sv) (float_round sv) (location_coords_of td) of
        Inl e \<Rightarrow> Inl e
      | Inr distance_matrix \<Rightarrow>
         (case create_routing_model (pywrapcp sv) (float_round sv) distance_matrix of
            Inl e \<Rightarrow> Inl e
          | Inr (manager, routing, callback) \<Rightarrow> SolveWithParameters sv idx routing callback))"

definition solved :: "services \<Rightarrow> nat \<times> string \<times> truck_data \<Rightarrow> bool" where
  "solved sv x =
     (case x of (idx, name, td) \<Rightarrow>
        (case solver_answer sv idx td of Inr (Some solution) \<Rightarrow> True | _ \<Rightarrow> False))"

text \<open>
  The routing model is built and the solver does not raise for the truck, and a solution
  it returns is a tour of the truck's stops.
\<close>

definition solver_contract :: "services \<Rightarrow> nat \<Rightarrow> truck_data \<Rightarrow> bool" where
  "solver_contract sv idx td =
     (case solver_answer sv idx td of
        Inl e \<Rightarrow> False
      | Inr None \<Rightarrow> True
      | Inr (Some solution) \<Rightarrow>
         (case pywrapcp sv (length (location_coords_of td)) of
            (manager, routing) \<Rightarrow>
              \<exists>path. tour manager routing solution (length (location_coords_of td)) path))"

text \<open>The summary box and the polyline of a truck the solver solved.\<close>

definition truck_box :: "nat \<times> string \<times> truck_data \<Rightarrow> summary_box" where
  "truck_box x =
     (case x of (idx, name, td) \<Rightarrow>
        summary_box name (if idx = 0 then ''top: 10px; right: 10px;''
                          else ''bottom: 10px; right: 10px;''))"

definition truck_polyline :: "services \<Rightarrow> nat \<times> string \<times> truck_data \<Rightarrow> polyline \<Rightarrow> bool" where
  "truck_polyline sv x pl =
     (case x of (idx, name, td) \<Rightarrow>
        (case solver_answer sv idx td of
           Inr (Some solution) \<Rightarrow>
             (case pywrapcp sv (length (location_coords_of td)) of
                (manager, routing) \<Rightarrow>
                  route_loop manager routing solution (location_coords_of td)
                    (Start routing 0) [] = Some (points pl) \<and>
                  points pl \<noteq> [] \<and> line_color pl = color td \<and>
                  weight pl = 5 \<and> opacity pl = 0.7)
         | _ \<Rightarrow> False))"

section \<open>Concrete inputs\<close>

text \<open>
  The index manager and routing model of the library for \<open>n\<close> nodes, one vehicle and
  depot 0: index \<open>i < n\<close> is node \<open>i\<close>, index \<open>n\<close> is the end of the vehicle, back at
  node 0.
\<close>

definition library_model :: "nat \<Rightarrow> manager \<times> routing" where
  "library_model n =
     (\<lparr>IndexToNode = (\<lambda>i. if i < n then i else 0)\<rparr>,
      \<lparr>Start = (\<lambda>v. 0), IsEnd = (\<lambda>i. i = n)\<rparr>)"

text \<open>
  A provider that answers every request with 1500 metres, and a solver that always returns
  the tour \<open>0, 1, \<dots>, n - 1\<close>; the same with no solution for the second truck. The
  only float operation of a run is then \<open>1500 / 1000\<close>, whose result 1.5 is a float:
  the rounding changes nothing.
\<close>

definition services_all_solved :: services where
  "services_all_solved =
     \<lparr>requests_get = (\<lambda>idx i j url. Json (Body (Some [Route (Some 1500)]))),
      str_float = (\<lambda>x. []),
      float_round = (\<lambda>x. x),
      pywrapcp = library_model,
      SolveWithParameters = (\<lambda>idx routing callback. Inr (Some Suc))\<rparr>"

definition services_second_unsolved :: services where
  "services_second_unsolved =
     \<lparr>requests_get = (\<lambda>idx i j url. Json (Body (Some [Route (Some 1500)]))),
      str_float = (\<lambda>x. []),
      float_round = (\<lambda>x. x),
      pywrapcp = library_model,
      SolveWithParameters =
        (\<lambda>idx routing callback. if idx = 1 then Inr None else Inr (Some Suc))\<rparr>"

text \<open>
  A provider with one answer of each kind: a distance for \<open>(0, 1)\<close>, no route for
  \<open>(1, 0)\<close>, a route without distance for \<open>(0, 2)\<close>, an exception for the rest.
\<close>

definition sample_provider :: provider where
  "sample_provider i j url =
     (if i = 0 \<and> j = 1 then Json (Body (Some [Route (Some 1500)]))
      else if i = 1 \<and> j = 0 then Json (Body None)
      else if i = 0 \<and> j = 2 then Json (Body (Some [Route None]))
      else Raised)"

definition empty_world :: world where
  "empty_world = \<lparr>files = Map.empty, stdout = []\<rparr>"

definition busy_world :: world where
  "busy_world =
     \<lparr>files = [''notes.html'' \<mapsto> folium_Map (0, 0) 1], stdout = [''started'']\<rparr>"

section \<open>The loops\<close>

lemma square_nth: "square n m \<Longrightarrow> i < n \<Longrightarrow> length (m ! i) = n"
  by (simp add: square_def list_all_length)

lemma square_update:
  "square n m \<Longrightarrow> i < n \<Longrightarrow> square n (m[i := (m ! i)[j := v]])"
  by (auto simp: square_def list_all_length nth_list_update)

lemma visit_pair_ok:
  assumes "square n m" "length coords = n" "i < n" "j < n"
  shows "visit_pair get str rnd coords i j m = Inr (m[i := (m ! i)[j := cell_for get str rnd coords i j]])"
proof -
  have len: "i < length m" "j < length (m ! i)"
    using assms by (simp_all add: square_def list_all_length)
  show ?thesis
    using assms(2-4) len
    by (simp add: visit_pair_def getitem_def setitem2_def cell_for_def Let_def
        split: sum.splits)
qed

lemma inner_loop_ok:
  assumes "square n m" "length coords = n" "i < n" "set js \<subseteq> {..<n}"
  shows "\<exists>m'. inner_loop get str rnd coords i js m = Inr m' \<and> square n m' \<and>
           (\<forall>k<n. \<forall>l<n. m' ! k ! l =
              (if k = i \<and> l \<in> set js \<and> l \<noteq> i then cell_for get str rnd coords i l else m ! k ! l))"
  using assms
proof (induction js arbitrary: m)
  case Nil
  then show ?case by simp
next
  case (Cons j js)
  show ?case
  proof (cases "i = j")
    case True
    with Cons.IH[of m] Cons.prems show ?thesis by auto
  next
    case False
    let ?m1 = "m[i := (m ! i)[j := cell_for get str rnd coords i j]]"
    have j: "j < n" using Cons.prems by simp
    have v: "visit_pair get str rnd coords i j m = Inr ?m1"
      using visit_pair_ok[OF Cons.prems(1,2,3) j] .
    have sq1: "square n ?m1" using square_update[OF Cons.prems(1,3)] .
    from Cons.IH[OF sq1 Cons.prems(2,3)] Cons.prems(4)
    obtain m' where m': "inner_loop get str rnd coords i js ?m1 = Inr m'" "square n m'"
      "\<forall>k<n. \<forall>l<n. m' ! k ! l =
              (if k = i \<and> l \<in> set js \<and> l \<noteq> i then cell_for get str rnd coords i l else ?m1 ! k ! l)"
      by auto
    have lm: "length m = n" "length (m ! i) = n"
      using Cons.prems(1,3) by (simp_all add: square_def list_all_length)
    have "\<forall>k<n. \<forall>l<n. m' ! k ! l =
              (if k = i \<and> l \<in> set (j # js) \<and> l \<noteq> i then cell_for get str rnd coords i l else m ! k ! l)"
      using m'(3) lm False Cons.prems(3) j by (auto simp: nth_list_update)
    with m'(1,2) v False show ?thesis by simp
  qed
qed

lemma outer_loop_ok:
  assumes "square n m" "length coords = n" "set is \<subseteq> {..<n}"
  shows "\<exists>m'. outer_loop get str rnd coords n is m = Inr m' \<and> square n m' \<and>
           (\<forall>k<n. \<forall>l<n. m' ! k ! l =
              (if k \<in> set is \<and> l \<noteq> k then cell_for get str rnd coords k l else m ! k ! l))"
  using assms
proof (induction "is" arbitrary: m)
  case Nil
  then show ?case by simp
next
  case (Cons i "is")
  have i: "i < n" using Cons.prems by simp
  have sub: "set [0..<n] \<subseteq> {..<n}" by auto
  from inner_loop_ok[OF Cons.prems(1,2) i sub, of get str rnd]
  obtain m1 where m1: "inner_loop get str rnd coords i [0..<n] m = Inr m1" "square n m1"
    "\<forall>k<n. \<forall>l<n. m1 ! k ! l =
        (if k = i \<and> l \<noteq> i then cell_for get str rnd coords i l else m ! k ! l)"
    by auto
  from Cons.IH[OF m1(2) Cons.prems(2)] Cons.prems(3)
  obtain m' where m': "outer_loop get str rnd coords n is m1 = Inr m'" "square n m'"
    "\<forall>k<n. \<forall>l<n. m' ! k ! l =
        (if k \<in> set is \<and> l \<noteq> k then cell_for get str rnd coords k l else m1 ! k ! l)"
    by auto
  have "\<forall>k<n. \<forall>l<n. m' ! k ! l =
        (if k \<in> set (i # is) \<and> l \<noteq> k then cell_for get str rnd coords k l else m ! k ! l)"
    using m'(3) m1(3) by auto
  with m1(1) m'(1,2) show ?case by simp
qed

lemma get_distance_matrix_ok:
  "\<exists>M. get_distance_matrix get str rnd coords = Inr M \<and> square (length coords) M \<and>
     (\<forall>i<length coords. \<forall>j<length coords. M ! i ! j =
        (if i = j then Num 0 else cell_for get str rnd coords i j))"
proof -
  let ?n = "length coords"
  let ?m0 = "replicate ?n (replicate ?n (Num 0))"
  have sq: "square ?n ?m0" by (simp add: square_def list_all_length)
  have sub: "set [0..<?n] \<subseteq> {..<?n}" by auto
  from outer_loop_ok[OF sq refl sub, of get str rnd]
  obtain M where M: "outer_loop get str rnd coords ?n [0..<?n] ?m0 = Inr M" "square ?n M"
    "\<forall>k<?n. \<forall>l<?n. M ! k ! l =
        (if l \<noteq> k then cell_for get str rnd coords k l else ?m0 ! k ! l)"
    by auto
  have "\<forall>i<?n. \<forall>j<?n. M ! i ! j = (if i = j then Num 0 else cell_for get str rnd coords i j)"
    using M(3) by auto
  with M(1,2) show ?thesis by (simp add: get_distance_matrix_def Let_def)
qed



lemma route_loop_path:
  assumes "path \<noteq> []" "list_all (\<lambda>i. \<not> IsEnd routing i) path"
    "map solution (butlast path) = tl path" "IsEnd routing (solution (last path))"
    "list_all (\<lambda>i. IndexToNode manager i < length coords) path"
  shows "route_loop manager routing solution coords (hd path) acc =
           Some (acc @ map (\<lambda>i. coords ! IndexToNode manager i) path)"
  using assms
proof (induction path arbitrary: acc)
  case Nil
  then show ?case by simp
next
  case (Cons x xs)
  have x: "\<not> IsEnd routing x" "IndexToNode manager x < length coords"
    using Cons.prems by simp_all
  have step: "route_loop manager routing solution coords x acc =
      route_loop manager routing solution coords (solution x)
        (acc @ [coords ! IndexToNode manager x])"
    using x by (subst route_loop.simps) (simp add: Let_def)
  show ?case
  proof (cases xs)
    case Nil
    then have "IsEnd routing (solution x)" using Cons.prems by simp
    then have "route_loop manager routing solution coords (solution x)
        (acc @ [coords ! IndexToNode manager x]) = Some (acc @ [coords ! IndexToNode manager x])"
      by (subst route_loop.simps) simp
    with step Nil show ?thesis by simp
  next
    case (Cons y ys)
    then have sx: "solution x = hd xs" using Cons.prems by simp
    have "route_loop manager routing solution coords (hd xs)
        (acc @ [coords ! IndexToNode manager x]) =
        Some ((acc @ [coords ! IndexToNode manager x]) @
          map (\<lambda>i. coords ! IndexToNode manager i) xs)"
      using Cons.prems Cons by (intro Cons.IH) auto
    with step sx show ?thesis by simp
  qed
qed

lemma tour_route:
  assumes "tour manager routing solution (length coords) path"
  shows "route_loop manager routing solution coords (Start routing 0) [] =
           Some (map (\<lambda>i. coords ! IndexToNode manager i) path)"
proof -
  have "list_all (\<lambda>i. IndexToNode manager i < length coords) path"
  proof -
    have "\<forall>i\<in>set path. IndexToNode manager i \<in> {0..<length coords}"
      using assms unfolding tour_def by (metis image_eqI set_map)
    then show ?thesis by (simp add: list_all_iff)
  qed
  with assms route_loop_path[of path routing solution manager coords "[]"]
  show ?thesis by (simp add: tour_def)
qed

lemma gdm_length:
  "get_distance_matrix get str rnd coords = Inr M \<Longrightarrow> length M = length coords"
  using get_distance_matrix_ok[of get str rnd coords] by (auto simp: square_def)

lemma solver_answer_no_stop:
  assumes "location_coords_of td = []"
  shows "solver_answer sv idx td = Inl Aborted"
proof -
  obtain M where M: "get_distance_matrix (requests_get sv idx) (str_float sv) (float_round sv)
      (location_coords_of td) = Inr M"
    using get_distance_matrix_ok by blast
  have "length M = 0" using gdm_length[OF M] assms by simp
  with M show ?thesis
    by (simp add: solver_answer_def create_routing_model_def)
qed

lemma truck_iteration_no_stop:
  assumes "location_coords_of td = []"
  shows "truck_iteration sv idx (name, td) (rm, sb) = Some (Inl Aborted)"
proof -
  obtain M where M: "get_distance_matrix (requests_get sv idx) (str_float sv) (float_round sv)
      (location_coords_of td) = Inr M"
    using get_distance_matrix_ok by blast
  have "length M = 0" using gdm_length[OF M] assms by simp
  with M show ?thesis
    by (simp add: truck_iteration_def create_routing_model_def Let_def
        location_coords_of_def[symmetric])
qed

lemma solver_answer_stops:
  assumes "solver_answer sv idx td = Inr a"
  shows "location_coords_of td \<noteq> []"
  using assms solver_answer_no_stop[of td sv idx] by auto

lemma solver_answer_model:
  assumes "solver_answer sv idx td = Inr a"
    and "get_distance_matrix (requests_get sv idx) (str_float sv) (float_round sv)
      (location_coords_of td) = Inr M"
    and "pywrapcp sv (length (location_coords_of td)) = (manager, routing)"
  shows "create_routing_model (pywrapcp sv) (float_round sv) M =
           Inr (manager, routing, distance_callback manager (float_round sv) M) \<and>
         SolveWithParameters sv idx routing (distance_callback manager (float_round sv) M) = Inr a"
proof -
  have lM: "length M = length (location_coords_of td)" using gdm_length[OF assms(2)] .
  have ne: "length M \<noteq> 0" using solver_answer_stops[OF assms(1)] lM by simp
  have crm: "create_routing_model (pywrapcp sv) (float_round sv) M =
      Inr (manager, routing, distance_callback manager (float_round sv) M)"
    using ne lM assms(3) by (simp add: create_routing_model_def)
  with assms(1,2) show ?thesis by (simp add: solver_answer_def)
qed

lemma truck_iteration_skip:
  assumes "solver_answer sv idx td = Inr None"
  shows "truck_iteration sv idx (name, td) (rm, sb) = Some (Inr (rm, sb))"
proof -
  let ?cs = "location_coords_of td"
  obtain M where M: "get_distance_matrix (requests_get sv idx) (str_float sv) (float_round sv)
      ?cs = Inr M"
    using get_distance_matrix_ok by blast
  obtain manager routing where mr: "pywrapcp sv (length ?cs) = (manager, routing)"
    by (cases "pywrapcp sv (length ?cs)")
  from solver_answer_model[OF assms M mr] M show ?thesis
    by (simp add: truck_iteration_def Let_def location_coords_of_def[symmetric])
qed

lemma truck_iteration_solved:
  assumes "solver_answer sv idx td = Inr (Some sol)" "solver_contract sv idx td"
  shows "\<exists>pl. truck_polyline sv (idx, name, td) pl \<and>
     truck_iteration sv idx (name, td) (rm, sb) =
       Some (Inr (rm\<lparr>polylines := polylines rm @ [pl]\<rparr>, sb @ [truck_box (idx, name, td)]))"
proof -
  let ?cs = "location_coords_of td"
  obtain M where M: "get_distance_matrix (requests_get sv idx) (str_float sv) (float_round sv)
      ?cs = Inr M"
    using get_distance_matrix_ok by blast
  obtain manager routing where mr: "pywrapcp sv (length ?cs) = (manager, routing)"
    by (cases "pywrapcp sv (length ?cs)")
  note model = solver_answer_model[OF assms(1) M mr]
  obtain path where path: "tour manager routing sol (length ?cs) path"
    using assms mr by (auto simp: solver_contract_def)
  let ?route = "map (\<lambda>i. ?cs ! IndexToNode manager i) path"
  let ?pl = "\<lparr>points = ?route, line_color = color td, weight = 5, opacity = 0.7\<rparr>"
  have rl: "route_loop manager routing sol ?cs (Start routing 0) [] = Some ?route"
    using tour_route[OF path] .
  have ne: "?route \<noteq> []"
    using path by (simp add: tour_def)
  have pl: "truck_polyline sv (idx, name, td) ?pl"
    using assms(1) mr rl ne by (simp add: truck_polyline_def)
  have "truck_iteration sv idx (name, td) (rm, sb) =
     Some (Inr (rm\<lparr>polylines := polylines rm @ [?pl]\<rparr>, sb @ [truck_box (idx, name, td)]))"
    using M model rl ne
    by (simp add: truck_iteration_def truck_box_def Let_def location_coords_of_def[symmetric])
  with pl show ?thesis by blast
qed

lemma trucks_loop_ok:
  assumes "list_all (\<lambda>(idx, name, td). solver_contract sv idx td) xs"
  shows "\<exists>rm' pls. trucks_loop sv xs (rm, sb) =
      Some (Inr (rm', sb @ map truck_box (filter (solved sv) xs))) \<and>
    polylines rm' = polylines rm @ pls \<and>
    list_all2 (truck_polyline sv) (filter (solved sv) xs) pls \<and>
    html_children rm' = html_children rm \<and> center rm' = center rm \<and>
    zoom_start rm' = zoom_start rm"
  using assms
proof (induction xs arbitrary: rm sb)
  case Nil
  then show ?case by simp
next
  case (Cons x xs)
  obtain idx name td where x: "x = (idx, name, td)" by (cases x)
  have c: "solver_contract sv idx td"
    and cs: "list_all (\<lambda>(idx, name, td). solver_contract sv idx td) xs"
    using Cons.prems x by simp_all
  consider "solver_answer sv idx td = Inr None"
    | sol where "solver_answer sv idx td = Inr (Some sol)"
    using c by (auto simp: solver_contract_def split: sum.splits option.splits)
  then show ?case
  proof cases
    case 1
    have it: "truck_iteration sv idx (name, td) (rm, sb) = Some (Inr (rm, sb))"
      using truck_iteration_skip[OF 1] .
    from Cons.IH[OF cs, of rm sb] it 1 x show ?thesis
      by (simp add: solved_def)
  next
    case 2
    from truck_iteration_solved[OF 2 c, of name rm sb]
    obtain pl where pl: "truck_polyline sv (idx, name, td) pl"
      and it: "truck_iteration sv idx (name, td) (rm, sb) =
        Some (Inr (rm\<lparr>polylines := polylines rm @ [pl]\<rparr>, sb @ [truck_box (idx, name, td)]))"
      by blast
    let ?rm1 = "rm\<lparr>polylines := polylines rm @ [pl]\<rparr>"
    let ?sb1 = "sb @ [truck_box (idx, name, td)]"
    from Cons.IH[OF cs, of ?rm1 ?sb1]
    obtain rm' pls where r: "trucks_loop sv xs (?rm1, ?sb1) =
        Some (Inr (rm', ?sb1 @ map truck_box (filter (solved sv) xs)))"
      "polylines rm' = polylines ?rm1 @ pls"
      "list_all2 (truck_polyline sv) (filter (solved sv) xs) pls"
      "html_children rm' = html_children ?rm1" "center rm' = center ?rm1"
      "zoom_start rm' = zoom_start ?rm1"
      by blast
    have sx: "solved sv x" using 2 x by (simp add: solved_def)
    have "trucks_loop sv (x # xs) (rm, sb) =
        Some (Inr (rm', sb @ map truck_box (filter (solved sv) (x # xs))))"
      using it r(1) x sx by simp
    moreover have "polylines rm' = polylines rm @ (pl # pls)"
      using r(2) by simp
    moreover have "list_all2 (truck_polyline sv) (filter (solved sv) (x # xs)) (pl # pls)"
      using r(3) pl sx x by simp
    ultimately show ?thesis using r(4-6) by (intro exI[of _ rm'] exI[of _ "pl # pls"]) simp
  qed
qed

lemma optimize_routes_ok:
  assumes "list_all (\<lambda>(idx, name, td). solver_contract sv idx td) (enumerate 0 fleet)"
  shows "\<exists>rm. optimize_routes sv fleet w =
      Some (Inr (w\<lparr>files := (files w)(''optimized_route.html'' \<mapsto> rm),
                         stdout := stdout w @ [saved_message]\<rparr>)) \<and>
      center rm = (43.89, -79.39) \<and> zoom_start rm = 12 \<and>
      html_children rm = [map truck_box (filter (solved sv) (enumerate 0 fleet))] \<and>
      list_all2 (truck_polyline sv) (filter (solved sv) (enumerate 0 fleet)) (polylines rm)"
proof -
  from trucks_loop_ok[OF assms, of "folium_Map (43.89, -79.39) 12" "[]"]
  obtain rm' where r:
    "trucks_loop sv (enumerate 0 fleet) (folium_Map (43.89, -79.39) 12, []) =
       Some (Inr (rm', map truck_box (filter (solved sv) (enumerate 0 fleet))))"
    "list_all2 (truck_polyline sv) (filter (solved sv) (enumerate 0 fleet)) (polylines rm')"
    "html_children rm' = []" "center rm' = (43.89, -79.39)" "zoom_start rm' = 12"
    by (auto simp: folium_Map_def)
  let ?boxes = "map truck_box (filter (solved sv) (enumerate 0 fleet))"
  show ?thesis
    using r
    by (intro exI[of _ "rm'\<lparr>html_children := html_children rm' @ [?boxes]\<rparr>"])
       (simp add: optimize_routes_def Let_def)
qed

lemma truck_polyline_color:
  assumes "list_all2 (truck_polyline sv) xs pls"
  shows "map line_color pls = map (color \<circ> snd \<circ> snd) xs"
proof -
  have one: "line_color pl = color (snd (snd x))" if "truck_polyline sv x pl" for x pl
  proof -
    obtain idx name td where x: "x = (idx, name, td)" by (cases x)
    obtain manager routing where
      mr: "pywrapcp sv (length (location_coords_of td)) = (manager, routing)"
      by (cases "pywrapcp sv (length (location_coords_of td))")
    show ?thesis
      using that x mr
      by (cases "solver_answer sv idx td")
         (auto simp: truck_polyline_def split: option.splits)
  qed
  from assms show ?thesis
    by (induction xs pls rule: list_all2_induct) (simp_all add: one)
qed

lemma truck_box_name: "map truck (map truck_box xs) = map (fst \<circ> snd) xs"
  by (induction xs) (auto simp: truck_box_def summary_box_def)

lemma get_distance_matrix_eq:
  "get_distance_matrix get str rnd coords =
     Inr (map (\<lambda>i. map (\<lambda>j. if i = j then Num 0 else cell_for get str rnd coords i j)
                     [0..<length coords]) [0..<length coords])"
proof -
  obtain M where M: "get_distance_matrix get str rnd coords = Inr M" "square (length coords) M"
     "\<forall>i<length coords. \<forall>j<length coords. M ! i ! j =
        (if i = j then Num 0 else cell_for get str rnd coords i j)"
    using get_distance_matrix_ok by blast
  have "M = map (\<lambda>i. map (\<lambda>j. if i = j then Num 0 else cell_for get str rnd coords i j)
                     [0..<length coords]) [0..<length coords]"
  proof (rule nth_equalityI)
    show "length M = length (map (\<lambda>i. map (\<lambda>j. if i = j then Num 0 else cell_for get str rnd coords i j)
                     [0..<length coords]) [0..<length coords])"
      using M(2) by (simp add: square_def)
  next
    fix i assume "i < length M"
    then have i: "i < length coords" using M(2) by (simp add: square_def)
    have "M ! i = map (\<lambda>j. if i = j then Num 0 else cell_for get str rnd coords i j) [0..<length coords]"
      using M(3) i square_nth[OF M(2) i] by (intro nth_equalityI) simp_all
    then show "M ! i = map (\<lambda>i. map (\<lambda>j. if i = j then Num 0 else cell_for get str rnd coords i j)
                     [0..<length coords]) [0..<length coords] ! i"
      using i by simp
  qed
  with M(1) show ?thesis by simp
qed

text \<open>The provider is consulted off the diagonal only.\<close>

lemma get_distance_matrix_off_diagonal:
  assumes "\<forall>i j url. i \<noteq> j \<longrightarrow> get' i j url = get i j url"
  shows "get_distance_matrix get' str rnd coords = get_distance_matrix get str rnd coords"
proof -
  have "cell_for get' str rnd coords i j = cell_for get str rnd coords i j" if "i \<noteq> j" for i j
    using assms that by (simp add: cell_for_def)
  then have "(if i = j then Num 0 else cell_for get' str rnd coords i j) =
      (if i = j then Num 0 else cell_for get str rnd coords i j)" for i j
    by simp
  then show ?thesis by (simp add: get_distance_matrix_eq)
qed

section \<open>Facts about the concrete inputs\<close>

lemma map_Suc_butlast_upt: "map Suc (butlast [0..<n]) = tl [0..<n]"
proof (cases n)
  case 0
  then show ?thesis by simp
next
  case (Suc k)
  have "map Suc [0..<k] = [Suc 0..<Suc k]" by (simp add: map_Suc_upt)
  moreover have "tl [0..<Suc k] = [Suc 0..<Suc k]" by (simp add: upt_conv_Cons del: upt_Suc)
  ultimately show ?thesis using Suc by simp
qed

lemma tour_library_model:
  assumes "0 < n"
  shows "tour (fst (library_model n)) (snd (library_model n)) Suc n [0..<n]"
proof -
  have ne: "[0..<n] \<noteq> []" using assms by simp
  have hd0: "hd [0..<n] = 0" using assms by (simp add: upt_conv_Cons)
  have lst: "last [0..<n] = n - 1" using assms by (cases n) simp_all
  have nodes: "map (\<lambda>i. if i < n then i else 0) [0..<n] = [0..<n]"
    by (rule nth_equalityI) simp_all
  show ?thesis
    unfolding tour_def library_model_def
    using ne hd0 lst nodes assms map_Suc_butlast_upt[of n]
    by (simp add: list_all_iff)
qed

lemma float_overflow_small: "abs x \<le> 2 \<Longrightarrow> \<not> float_overflow x"
proof -
  have "(2::real) ^ 970 * 2 \<le> 2 ^ 970 * 2 ^ 54"
    by (intro mult_left_mono) simp_all
  then have "(2::real) < 2 ^ 1024 - 2 ^ 970"
    by (simp add: power_add [symmetric, of 2 970 54])
  then show "abs x \<le> 2 \<Longrightarrow> \<not> float_overflow x"
    by (simp add: float_overflow_def)
qed

lemma no_overflow_1500: "\<not> float_overflow (3 / 2)"
  by (rule float_overflow_small) simp

lemma coords_markham:
  "location_coords_of \<lparr>locations = markham_locations, fill_levels = markham_bin_fill_levels,
        color = c\<rparr> =
     [(43.8563, -79.3370), (43.8643, -79.3021), (43.8576, -79.2813),
      (43.9191, -79.3190), (43.8952, -79.2443)]"
  by (simp add: location_coords_of_def filtered_bins_def keep_bin_def get_fill_def
      FILL_THRESHOLD_def markham_locations_def markham_bin_fill_levels_def)

lemma coords_richmondhill:
  "location_coords_of \<lparr>locations = richmondhill_locations,
        fill_levels = richmondhill_bin_fill_levels, color = c\<rparr> =
     [(43.8783, -79.4402), (43.9021, -79.4121), (43.9165, -79.4355),
      (43.8819, -79.4525), (43.8565, -79.4700)]"
  by (simp add: location_coords_of_def filtered_bins_def keep_bin_def get_fill_def
      FILL_THRESHOLD_def richmondhill_locations_def richmondhill_bin_fill_levels_def)

lemma solver_contract_library:
  assumes "pywrapcp sv = library_model" "location_coords_of td \<noteq> []"
    and "solver_answer sv idx td = Inr None \<or> solver_answer sv idx td = Inr (Some Suc)"
  shows "solver_contract sv idx td"
  using assms(3)
proof
  assume "solver_answer sv idx td = Inr None"
  then show ?thesis by (simp add: solver_contract_def)
next
  assume a: "solver_answer sv idx td = Inr (Some Suc)"
  let ?n = "length (location_coords_of td)"
  have "tour (fst (library_model ?n)) (snd (library_model ?n)) Suc ?n [0..<?n]"
    using assms(2) by (intro tour_library_model) simp
  then show ?thesis
    using a assms(1) by (auto simp: solver_contract_def split: prod.splits)
qed

lemma answer_second_unsolved:
  "solver_answer services_second_unsolved idx td =
     (if location_coords_of td = [] then Inl Aborted
      else if idx = 1 then Inr None else Inr (Some Suc))"
  by (simp add: solver_answer_def services_second_unsolved_def get_distance_matrix_eq
      create_routing_model_def Let_def split: prod.splits)

lemma answer_all_solved:
  "solver_answer services_all_solved idx td =
     (if location_coords_of td = [] then Inl Aborted else Inr (Some Suc))"
  by (simp add: solver_answer_def services_all_solved_def get_distance_matrix_eq
      create_routing_model_def Let_def split: prod.splits)

lemma stops_trucks: "list_all (\<lambda>(name, td). location_coords_of td \<noteq> []) trucks"
  by (simp add: trucks_def coords_markham coords_richmondhill)

lemma contract_second_unsolved:
  "list_all (\<lambda>(idx, name, td). solver_contract services_second_unsolved idx td)
     (enumerate 0 trucks)"
proof -
  have "solver_contract services_second_unsolved idx td" if "location_coords_of td \<noteq> []"
    for idx td
    using that
    by (intro solver_contract_library) (simp_all add: answer_second_unsolved,
        simp add: services_second_unsolved_def)
  then show ?thesis
    by (simp add: trucks_def coords_markham coords_richmondhill)
qed

lemma contract_all_solved:
  "list_all (\<lambda>(idx, name, td). solver_contract services_all_solved idx td)
     (enumerate 0 trucks)"
proof -
  have "solver_contract services_all_solved idx td" if "location_coords_of td \<noteq> []"
    for idx td
    using that
    by (intro solver_contract_library) (simp_all add: answer_all_solved,
        simp add: services_all_solved_def)
  then show ?thesis
    by (simp add: trucks_def coords_markham coords_richmondhill)
qed

section \<open>The stop filter\<close>

text \<open>A stop whose name is exactly \<open>Depot\<close> is kept, whatever the threshold.\<close>

lemma filtered_bins_keeps_name_Depot:
  "(''Depot'', c) \<in> set locs \<Longrightarrow> (''Depot'', c) \<in> set (filtered_bins threshold locs fl)"
  by (simp add: filtered_bins_def keep_bin_def)

text \<open>
  C1. The filter is meant to keep the depot whatever its fill level, and recognises it by
  the name \<open>Depot\<close>. The depots of the source's own tables are named
  \<open>Depot (Markham)\<close> and \<open>Depot (Richmond Hill)\<close>; they have no fill level, read as 0,
  and are dropped at the configured threshold 40. The theorem evaluates the filter on the
  Markham table: the depot is not among the kept stops.
\<close>

theorem filtered_bins_markham_drops_depot:
  "map fst (filtered_bins FILL_THRESHOLD markham_locations markham_bin_fill_levels) =
     [''Markham Civic Centre'', ''Markville Mall'', ''Milne Dam Park'',
      ''Angus Glen Community Centre'', ''Cornell Community Centre'']"
  by (simp add: filtered_bins_def keep_bin_def get_fill_def FILL_THRESHOLD_def
      markham_locations_def markham_bin_fill_levels_def)

text \<open>
  C8. Every stop of the filter's output that is not named \<open>Depot\<close> has a fill level
  of at least the threshold; a stop with no entry in the fill-level mapping is kept exactly
  when it would be with fill level 0; the output holds exactly the stops named \<open>Depot\<close>
  or filled to the threshold, in the order of the input.
\<close>

theorem filtered_bins_threshold_and_order:
  "(\<forall>item \<in> set (filtered_bins threshold locs fl).
       fst item \<noteq> ''Depot'' \<longrightarrow> threshold \<le> get_fill fl (fst item)) \<and>
   (\<forall>item \<in> set locs. fl (fst item) = None \<longrightarrow>
       (item \<in> set (filtered_bins threshold locs fl) \<longleftrightarrow>
          fst item = ''Depot'' \<or> threshold \<le> 0)) \<and>
   set (filtered_bins threshold locs fl) =
     {item \<in> set locs. fst item = ''Depot'' \<or> threshold \<le> get_fill fl (fst item)} \<and>
   subseq (filtered_bins threshold locs fl) locs"
  by (auto simp: filtered_bins_def keep_bin_def get_fill_def)

text \<open>
  The scenario of the specification (threshold 40, fill levels A 45, B 30, C 60), with a
  stop D that has no fill level.
\<close>

theorem filtered_bins_threshold_and_order_witness:
  "filtered_bins 40
     [(''Depot'', (0, 0)), (''A'', (0, 1)), (''B'', (0, 2)), (''C'', (0, 3)), (''D'', (0, 4))]
     (map_of [(''A'', 45), (''B'', 30), (''C'', 60)]) =
     [(''Depot'', (0, 0)), (''A'', (0, 1)), (''C'', (0, 3))] \<and>
   (40::int) \<le> get_fill (map_of [(''A'', 45), (''B'', 30), (''C'', 60)]) ''A'' \<and>
   (''D'', (0, 4)) \<notin> set (filtered_bins 40
     [(''Depot'', (0, 0)), (''A'', (0, 1)), (''B'', (0, 2)), (''C'', (0, 3)), (''D'', (0, 4))]
     (map_of [(''A'', 45), (''B'', 30), (''C'', 60)])) \<and>
   subseq (filtered_bins 40
     [(''Depot'', (0, 0)), (''A'', (0, 1)), (''B'', (0, 2)), (''C'', (0, 3)), (''D'', (0, 4))]
     (map_of [(''A'', 45), (''B'', 30), (''C'', 60)]))
     [(''Depot'', (0, 0)), (''A'', (0, 1)), (''B'', (0, 2)), (''C'', (0, 3)), (''D'', (0, 4))]"
  using filtered_bins_threshold_and_order [of 40
     "[(''Depot'', (0, 0)), (''A'', (0, 1)), (''B'', (0, 2)), (''C'', (0, 3)), (''D'', (0, 4))]"
     "map_of [(''A'', 45), (''B'', 30), (''C'', 60)]"]
  by (simp add: filtered_bins_def keep_bin_def get_fill_def)

section \<open>The distance matrix\<close>

text \<open>A distance too large for a float: the division raises inside the \<open>try\<close> block.\<close>

lemma try_value_overflow:
  "try_value rnd (Json (Body (Some [Route (Some (10 ^ 400))]))) = Inl OverflowError"
  by (simp add: float_overflow_def)

text \<open>
  C6. When the lookup for a pair \<open>(i, j)\<close>, \<open>i \<noteq> j\<close>, raises inside the \<open>try\<close> block
  (the request, the decoding, a route without distance, a distance too large for a
  float), \<open>get_distance_matrix\<close> still returns a matrix, and the cell holds the estimate
  \<open>5 * |i - j|\<close>: the same for equal index distances and strictly larger for a larger
  index distance.
\<close>

theorem get_distance_matrix_fallback:
  assumes "i < length coords" "j < length coords" "i \<noteq> j"
    and "try_value rnd (get i j (request_url str (coords ! i) (coords ! j))) = Inl e"
  shows "\<exists>M. get_distance_matrix get str rnd coords = Inr M \<and>
           M ! i ! j = fallback_estimate i j \<and>
           fallback_estimate i j = Num (5 * real_of_int (abs (int i - int j))) \<and>
           (\<forall>i' j'. abs (int i - int j) < abs (int i' - int j') \<longrightarrow>
                cell_less (fallback_estimate i j) (fallback_estimate i' j')) \<and>
           (\<forall>i' j'. abs (int i - int j) = abs (int i' - int j') \<longrightarrow>
                fallback_estimate i j = fallback_estimate i' j')"
proof -
  obtain M where M: "get_distance_matrix get str rnd coords = Inr M"
    "\<forall>i<length coords. \<forall>j<length coords. M ! i ! j =
        (if i = j then Num 0 else cell_for get str rnd coords i j)"
    using get_distance_matrix_ok by blast
  have cell: "M ! i ! j = fallback_estimate i j"
    using M(2) assms by (simp add: cell_for_def)
  have val: "fallback_estimate i j = Num (5 * real_of_int (abs (int i - int j)))"
    by (simp add: fallback_estimate_def)
  have mono: "cell_less (fallback_estimate i j) (fallback_estimate i' j')"
    if "abs (int i - int j) < abs (int i' - int j')" for i' j'
    using that by (simp only: fallback_estimate_def cell_less.simps of_int_less_iff) simp
  have same: "fallback_estimate i j = fallback_estimate i' j'"
    if "abs (int i - int j) = abs (int i' - int j')" for i' j'
    using that by (simp only: fallback_estimate_def)
  show ?thesis
    using M(1) cell val mono same by (intro exI[of _ M]) blast
qed

text \<open>Three coordinates; the lookups for \<open>(2, 0)\<close>, \<open>(2, 1)\<close> and \<open>(0, 2)\<close> raise.\<close>

theorem get_distance_matrix_fallback_witness:
  "\<exists>M. get_distance_matrix sample_provider (\<lambda>x. []) (\<lambda>x. x) [(0, 0), (0, 1), (0, 2)] = Inr M \<and>
       M ! 2 ! 0 = Num 10 \<and> M ! 2 ! 1 = Num 5 \<and> M ! 0 ! 2 = Num 10 \<and>
       cell_less (fallback_estimate 2 1) (fallback_estimate 2 0)"
proof -
  have r: "try_value (\<lambda>x. x) (sample_provider 2 0 u) = Inl RequestException"
     "try_value (\<lambda>x. x) (sample_provider 2 1 u) = Inl RequestException"
     "try_value (\<lambda>x. x) (sample_provider 0 2 u) = Inl KeyError" for u
    by (simp_all add: sample_provider_def)
  from get_distance_matrix_fallback [of 2 "[(0, 0), (0, 1), (0, 2)]" 0 "\<lambda>x. x" sample_provider
      "\<lambda>x. []", OF _ _ _ r(1)]
    get_distance_matrix_fallback [of 2 "[(0, 0), (0, 1), (0, 2)]" 1 "\<lambda>x. x" sample_provider
      "\<lambda>x. []", OF _ _ _ r(2)]
    get_distance_matrix_fallback [of 0 "[(0, 0), (0, 1), (0, 2)]" 2 "\<lambda>x. x" sample_provider
      "\<lambda>x. []", OF _ _ _ r(3)]
  show ?thesis
    by (auto simp: fallback_estimate_def)
qed

text \<open>
  C7. For every coordinate list and provider, the matrix returned has 0 in every diagonal
  cell; a cell whose reply carries no negative distance is not negative (rounding a number
  that is not negative gives a float that is not negative); a cell whose reply reports no
  route is \<open>float('inf')\<close>; and the matrix is the same for every provider that answers
  alike off the diagonal: no lookup is made for a diagonal cell.
\<close>

theorem get_distance_matrix_cells:
  "\<exists>M. get_distance_matrix get str rnd coords = Inr M \<and>
     (\<forall>i<length coords. M ! i ! i = Num 0) \<and>
     ((\<forall>x. 0 \<le> x \<longrightarrow> 0 \<le> rnd x) \<longrightarrow>
        (\<forall>i<length coords. \<forall>j<length coords.
           reply_nonneg (get i j (request_url str (coords ! i) (coords ! j))) \<longrightarrow>
             cell_nonneg (M ! i ! j))) \<and>
     (\<forall>i<length coords. \<forall>j<length coords.
        i \<noteq> j \<and> no_routes (get i j (request_url str (coords ! i) (coords ! j))) \<longrightarrow>
          M ! i ! j = PInf) \<and>
     (\<forall>get'. (\<forall>i j url. i \<noteq> j \<longrightarrow> get' i j url = get i j url) \<longrightarrow>
        get_distance_matrix get' str rnd coords = Inr M)"
proof -
  obtain M where M: "get_distance_matrix get str rnd coords = Inr M"
    "\<forall>i<length coords. \<forall>j<length coords. M ! i ! j =
        (if i = j then Num 0 else cell_for get str rnd coords i j)"
    using get_distance_matrix_ok by blast
  have nn: "cell_nonneg (cell_for get str rnd coords i j)"
    if "reply_nonneg (get i j (request_url str (coords ! i) (coords ! j)))"
      and "\<forall>x. 0 \<le> x \<longrightarrow> 0 \<le> rnd x" for i j
    using that
    by (cases "get i j (request_url str (coords ! i) (coords ! j))" rule: reply_nonneg.cases)
       (simp_all add: cell_for_def fallback_estimate_def)
  have inf: "cell_for get str rnd coords i j = PInf"
    if "no_routes (get i j (request_url str (coords ! i) (coords ! j)))" for i j
    using that
    by (cases "get i j (request_url str (coords ! i) (coords ! j))" rule: no_routes.cases)
       (simp_all add: cell_for_def)
  have diag: "get_distance_matrix get' str rnd coords = Inr M"
    if "\<forall>i j url. i \<noteq> j \<longrightarrow> get' i j url = get i j url" for get'
    using get_distance_matrix_off_diagonal [OF that] M(1) by simp
  have cells: "(\<forall>i<length coords. M ! i ! i = Num 0) \<and>
     ((\<forall>x. 0 \<le> x \<longrightarrow> 0 \<le> rnd x) \<longrightarrow>
        (\<forall>i<length coords. \<forall>j<length coords.
           reply_nonneg (get i j (request_url str (coords ! i) (coords ! j))) \<longrightarrow>
             cell_nonneg (M ! i ! j))) \<and>
     (\<forall>i<length coords. \<forall>j<length coords.
        i \<noteq> j \<and> no_routes (get i j (request_url str (coords ! i) (coords ! j))) \<longrightarrow>
          M ! i ! j = PInf)"
    using M(2) nn inf by auto
  show ?thesis
    using M(1) cells diag by (intro exI[of _ M]) blast
qed

text \<open>Three coordinates: a distance for \<open>(0, 1)\<close> and no route for \<open>(1, 0)\<close>.\<close>

theorem get_distance_matrix_cells_witness:
  "\<exists>M. get_distance_matrix sample_provider (\<lambda>x. []) (\<lambda>x. x) [(0, 0), (0, 1), (0, 2)] = Inr M \<and>
       M ! 0 ! 0 = Num 0 \<and> M ! 1 ! 1 = Num 0 \<and> M ! 2 ! 2 = Num 0 \<and>
       cell_nonneg (M ! 0 ! 1) \<and> M ! 1 ! 0 = PInf \<and>
       get_distance_matrix (\<lambda>i j url. if i = j then Json (Body None) else sample_provider i j url)
         (\<lambda>x. []) (\<lambda>x. x) [(0, 0), (0, 1), (0, 2)] = Inr M"
proof -
  let ?cs = "[(0, 0), (0, 1), (0, 2)] :: coord list"
  let ?str = "(\<lambda>x. []) :: real \<Rightarrow> string"
  let ?rnd = "(\<lambda>x. x) :: real \<Rightarrow> real"
  from get_distance_matrix_cells [of sample_provider ?str ?rnd ?cs]
  obtain M where M: "get_distance_matrix sample_provider ?str ?rnd ?cs = Inr M"
    and diag: "\<forall>i<length ?cs. M ! i ! i = Num 0"
    and nonneg: "(\<forall>x. 0 \<le> x \<longrightarrow> 0 \<le> ?rnd x) \<longrightarrow>
        (\<forall>i<length ?cs. \<forall>j<length ?cs.
        reply_nonneg (sample_provider i j (request_url ?str (?cs ! i) (?cs ! j))) \<longrightarrow>
          cell_nonneg (M ! i ! j))"
    and inf: "\<forall>i<length ?cs. \<forall>j<length ?cs.
        i \<noteq> j \<and> no_routes (sample_provider i j (request_url ?str (?cs ! i) (?cs ! j))) \<longrightarrow>
          M ! i ! j = PInf"
    and other: "\<forall>get'. (\<forall>i j url. i \<noteq> j \<longrightarrow> get' i j url = sample_provider i j url) \<longrightarrow>
        get_distance_matrix get' ?str ?rnd ?cs = Inr M"
    by blast
  have d: "M ! 0 ! 0 = Num 0" "M ! 1 ! 1 = Num 0" "M ! 2 ! 2 = Num 0"
    using diag by simp_all
  have "reply_nonneg (sample_provider 0 1 (request_url ?str (?cs ! 0) (?cs ! 1)))"
    by (simp add: sample_provider_def)
  with nonneg have n: "cell_nonneg (M ! 0 ! 1)" by simp
  have "no_routes (sample_provider 1 0 (request_url ?str (?cs ! 1) (?cs ! 0)))"
    by (simp add: sample_provider_def)
  with inf have i: "M ! 1 ! 0 = PInf" by simp
  have o: "get_distance_matrix
      (\<lambda>i j url. if i = j then Json (Body None) else sample_provider i j url) ?str ?rnd ?cs =
      Inr M"
    using other by simp
  show ?thesis
    using M d n i o by (intro exI[of _ M]) simp
qed

text \<open>
  C10. For every coordinate list and provider, \<open>get_distance_matrix\<close> returns (no
  exception leaves it) a matrix with as many rows as coordinates, each row as long.
\<close>

theorem get_distance_matrix_total_square:
  "\<exists>M. get_distance_matrix get str rnd coords = Inr M \<and> length M = length coords \<and>
       (\<forall>row \<in> set M. length row = length coords)"
  using get_distance_matrix_ok [of get str rnd coords]
  by (auto simp: square_def list_all_iff)

text \<open>The empty list, and three coordinates with replies of every kind.\<close>

theorem get_distance_matrix_total_square_witness:
  "get_distance_matrix sample_provider (\<lambda>x. []) (\<lambda>x. x) [] = Inr [] \<and>
   (\<exists>M. get_distance_matrix sample_provider (\<lambda>x. []) (\<lambda>x. x) [(0, 0), (0, 1), (0, 2)] = Inr M \<and>
        map length M = [3, 3, 3])"
proof -
  from get_distance_matrix_total_square [of sample_provider "\<lambda>x. []" "\<lambda>x. x" "[]"]
  have e: "get_distance_matrix sample_provider (\<lambda>x. []) (\<lambda>x. x) [] = Inr []" by auto
  from get_distance_matrix_total_square [of sample_provider "\<lambda>x. []" "\<lambda>x. x"
      "[(0, 0), (0, 1), (0, 2)]"]
  obtain M where M: "get_distance_matrix sample_provider (\<lambda>x. []) (\<lambda>x. x) [(0, 0), (0, 1), (0, 2)] = Inr M"
    "length M = 3" "\<forall>row \<in> set M. length row = 3" by auto
  from M(2) obtain a b c where "M = [a, b, c]"
    by (auto simp: length_Suc_conv numeral_3_eq_3)
  with M(3) have "map length M = [3, 3, 3]" by simp
  with M(1) have "\<exists>M. get_distance_matrix sample_provider (\<lambda>x. []) (\<lambda>x. x) [(0, 0), (0, 1), (0, 2)] = Inr M \<and>
        map length M = [3, 3, 3]"
    by (intro exI[of _ M]) simp
  with e show ?thesis by (rule conjI)
qed

section \<open>The arc cost callback\<close>

text \<open>
  The cost of an arc with a finite cell: the rounded product, truncated, unless the product
  is out of range.
\<close>

lemma distance_callback_finite:
  "distance_callback (fst (library_model 2)) rnd [[Num 0, Num x], [Num x, Num 0]] 0 1 =
     (if float_overflow (x * 1000) then Inl OverflowError
      else Inr (if 0 \<le> rnd (x * 1000) then \<lfloor>rnd (x * 1000)\<rfloor>
                else \<lceil>rnd (x * 1000)\<rceil>))"
  by (simp add: distance_callback_def library_model_def getitem_def py_int_def times_1000_def)

text \<open>
  C3. The provider reports no route for either direction between two stops, so
  \<open>get_distance_matrix\<close> writes \<open>float('inf')\<close> in both cells, as it is meant to for an
  unreachable pair. Every tour of the two stops uses these arcs, and the callback the solver
  calls for the arc \<open>(0, 1)\<close> evaluates \<open>int(inf * 1000)\<close>: it raises \<open>OverflowError\<close>
  instead of returning a cost, whatever the rounding of the float arithmetic.
\<close>

theorem distance_callback_raises_on_inf:
  "get_distance_matrix (\<lambda>i j url. Json (Body None)) (\<lambda>x. []) rnd
      [(43.8563, -79.3370), (43.8643, -79.3021)] =
     Inr [[Num 0, PInf], [PInf, Num 0]] \<and>
   distance_callback (fst (library_model 2)) rnd [[Num 0, PInf], [PInf, Num 0]] 0 1 =
     Inl OverflowError"
  by (simp add: get_distance_matrix_eq cell_for_def distance_callback_def library_model_def
      getitem_def py_int_def times_1000_def)

section \<open>Reading the route off a solution\<close>

text \<open>
  C4, as amended. For a solution that is a tour of the stops, the extraction loop ends and
  returns the coordinates of the nodes in the order of the tour: the sequence of nodes starts
  at the depot index 0 and contains every index of the matrix exactly once. The loop stops
  at the end index without adding it, so the sequence does not return to the depot: with
  two or more stops its last node is not the depot.
\<close>

theorem route_loop_visits_each_index_once:
  assumes "tour manager routing solution (length location_coords) path"
  shows "route_loop manager routing solution location_coords (Start routing 0) [] =
           Some (map (\<lambda>i. location_coords ! IndexToNode manager i) path) \<and>
         hd (map (IndexToNode manager) path) = 0 \<and>
         distinct (map (IndexToNode manager) path) \<and>
         set (map (IndexToNode manager) path) = {0..<length location_coords} \<and>
         (1 < length location_coords \<longrightarrow> last (map (IndexToNode manager) path) \<noteq> 0)"
proof -
  let ?nodes = "map (IndexToNode manager) path"
  have ne: "path \<noteq> []" and h: "IndexToNode manager (hd path) = 0"
    and d: "distinct ?nodes" and s: "set ?nodes = {0..<length location_coords}"
    using assms by (auto simp: tour_def)
  have hd0: "hd ?nodes = 0" using ne h by (simp add: hd_map)
  have "last ?nodes \<noteq> 0" if "1 < length location_coords"
  proof -
    have "length ?nodes = length location_coords"
      using d s by (metis card_atLeastLessThan diff_zero distinct_card)
    then have "1 < length ?nodes" using that by simp
    then obtain x y zs where xs: "?nodes = x # y # zs"
      by (cases ?nodes; cases "tl ?nodes") auto
    then have "x = 0" using hd0 by simp
    moreover have "last ?nodes \<in> set (y # zs)" using xs by simp
    moreover have "x \<notin> set (y # zs)" using d xs by simp
    ultimately show ?thesis by metis
  qed
  with tour_route[OF assms] hd0 d s show ?thesis by blast
qed

text \<open>
  The five stops the filter keeps for the first truck, with the tour \<open>0, 1, 2, 3, 4\<close>.
\<close>

theorem route_loop_visits_each_index_once_witness:
  "route_loop (fst (library_model 5)) (snd (library_model 5)) Suc
      (location_coords_of (snd (hd trucks))) 0 [] =
     Some [(43.8563, -79.3370), (43.8643, -79.3021), (43.8576, -79.2813),
           (43.9191, -79.3190), (43.8952, -79.2443)] \<and>
   map (IndexToNode (fst (library_model 5))) [0..<5] = [0, 1, 2, 3, 4]"
proof -
  have len: "length (location_coords_of (snd (hd trucks))) = 5"
    by (simp add: location_coords_of_def trucks_def filtered_bins_def keep_bin_def get_fill_def
        FILL_THRESHOLD_def markham_locations_def markham_bin_fill_levels_def)
  have t: "tour (fst (library_model 5)) (snd (library_model 5)) Suc
      (length (location_coords_of (snd (hd trucks)))) [0..<5]"
    unfolding len by (rule tour_library_model) simp
  from route_loop_visits_each_index_once [OF t] show ?thesis
    by (simp add: library_model_def location_coords_of_def trucks_def filtered_bins_def
        keep_bin_def get_fill_def FILL_THRESHOLD_def markham_locations_def
        markham_bin_fill_levels_def upt_conv_Cons)
qed

text \<open>
  C4 as stated fails: for two stops and the tour that visits them in order, the extracted
  route is the two coordinates, and its last element is not the depot's.
\<close>

theorem route_loop_leaves_route_open:
  "tour (fst (library_model 2)) (snd (library_model 2)) Suc 2 [0, 1] \<and>
   route_loop (fst (library_model 2)) (snd (library_model 2)) Suc
      [(43.8563, -79.3370), (43.8643, -79.3021)] 0 [] =
     Some [(43.8563, -79.3370), (43.8643, -79.3021)] \<and>
   last [(43.8563, -79.3370), (43.8643, -79.3021)] \<noteq>
     [(43.8563, -79.3370), (43.8643, -79.3021 :: real)] ! 0"
  by (auto simp: tour_def library_model_def route_loop.simps)

section \<open>The run over the fleet\<close>

text \<open>
  The figures of the summary box agree with the cost constants of the module, applied to
  the distances 50 and 35 the text gives; the code reads neither the constants nor a route.
\<close>

lemma summary_box_figures:
  "distance_saved (summary_box n p) =
     initial_distance (summary_box n p) - optimized_distance (summary_box n p)"
  "fuel_cost_before (summary_box n p) =
     initial_distance (summary_box n p) * fuel_consumption_per_km * fuel_price_per_liter"
  "fuel_cost_after (summary_box n p) =
     optimized_distance (summary_box n p) * fuel_consumption_per_km * fuel_price_per_liter"
  "savings (summary_box n p) =
     fuel_cost_before (summary_box n p) - fuel_cost_after (summary_box n p)"
  "labor_hours_saved (summary_box n p) =
     distance_saved (summary_box n p) * labor_hours_saved_per_km"
  by (simp_all add: summary_box_def fuel_consumption_per_km_def fuel_price_per_liter_def
      labor_hours_saved_per_km_def)

text \<open>
  C2. The run on the source's own fleet, with every pair of stops 1.5 km apart: both
  summary boxes report the figures written in the text of the source (50, 35 and 15 km,
  22.80, 15.96 and 6.84 dollars, 0.75 hours), which do not come from the distance matrix
  or the route.
\<close>

theorem optimize_routes_reports_fixed_figures:
  "get_distance_matrix (requests_get services_all_solved 0) (str_float services_all_solved)
     (float_round services_all_solved) (location_coords_of (snd (hd trucks))) =
     Inr [[Num 0, Num 1.5, Num 1.5, Num 1.5, Num 1.5],
          [Num 1.5, Num 0, Num 1.5, Num 1.5, Num 1.5],
          [Num 1.5, Num 1.5, Num 0, Num 1.5, Num 1.5],
          [Num 1.5, Num 1.5, Num 1.5, Num 0, Num 1.5],
          [Num 1.5, Num 1.5, Num 1.5, Num 1.5, Num 0]] \<and>
   optimize_routes services_all_solved trucks empty_world =
     Some (Inr \<lparr>files = [''optimized_route.html'' \<mapsto>
       \<lparr>center = (43.89, -79.39), zoom_start = 12,
        polylines =
          [\<lparr>points = [(43.8563, -79.3370), (43.8643, -79.3021), (43.8576, -79.2813),
                      (43.9191, -79.3190), (43.8952, -79.2443)],
            line_color = ''blue'', weight = 5, opacity = 0.7\<rparr>,
           \<lparr>points = [(43.8783, -79.4402), (43.9021, -79.4121), (43.9165, -79.4355),
                      (43.8819, -79.4525), (43.8565, -79.4700)],
            line_color = ''red'', weight = 5, opacity = 0.7\<rparr>],
        html_children =
          [[\<lparr>position = ''top: 10px; right: 10px;'', truck = ''Truck 1 (Markham)'',
             initial_distance = 50, optimized_distance = 35, distance_saved = 15,
             fuel_cost_before = 22.80, fuel_cost_after = 15.96, savings = 6.84,
             labor_hours_saved = 0.75\<rparr>,
            \<lparr>position = ''bottom: 10px; right: 10px;'', truck = ''Truck 2 (Richmond Hill)'',
             initial_distance = 50, optimized_distance = 35, distance_saved = 15,
             fuel_cost_before = 22.80, fuel_cost_after = 15.96, savings = 6.84,
             labor_hours_saved = 0.75\<rparr>]]\<rparr>],
      stdout = [saved_message]\<rparr>)"
  by (simp add: optimize_routes_def trucks_def truck_iteration_def
      services_all_solved_def library_model_def location_coords_of_def summary_box_def
      filtered_bins_def keep_bin_def get_fill_def FILL_THRESHOLD_def
      markham_locations_def markham_bin_fill_levels_def richmondhill_locations_def
      richmondhill_bin_fill_levels_def get_distance_matrix_eq create_routing_model_def no_overflow_1500
      cell_for_def
      route_loop.simps enumerate_eq_zip empty_world_def folium_Map_def Let_def)

text \<open>
  A truck whose filter keeps no stop ends the run: the routing model cannot be built for
  no location, and the process is ended before anything is saved or printed.
\<close>

lemma optimize_routes_aborts_without_stops:
  assumes "location_coords_of td = []"
  shows "optimize_routes sv ((name, td) # fleet) w = Some (Inl Aborted)"
  using truck_iteration_no_stop[OF assms, of sv 0 name]
  by (simp add: optimize_routes_def enumerate_simps)

text \<open>
  C5, as amended. For every fleet whose trucks each keep at least one stop, when the
  solver does not raise and its solutions are tours, the run ends without an exception:
  the saved map holds the summary box and the polyline of each truck the solver solved,
  in the order of the fleet, and nothing for a truck without solution; the only other
  output is the line printed at the end.
\<close>

theorem optimize_routes_skips_unsolved_trucks:
  assumes "list_all (\<lambda>(name, td). location_coords_of td \<noteq> []) fleet"
    and "list_all (\<lambda>(idx, name, td). solver_contract sv idx td) (enumerate 0 fleet)"
  shows "\<exists>w' rm. optimize_routes sv fleet w = Some (Inr w') \<and>
      files w' ''optimized_route.html'' = Some rm \<and>
      stdout w' = stdout w @ [saved_message] \<and>
      concat (html_children rm) = map truck_box (filter (solved sv) (enumerate 0 fleet)) \<and>
      list_all2 (truck_polyline sv) (filter (solved sv) (enumerate 0 fleet)) (polylines rm) \<and>
      map truck (concat (html_children rm)) =
        map (fst \<circ> snd) (filter (solved sv) (enumerate 0 fleet)) \<and>
      map line_color (polylines rm) =
        map (color \<circ> snd \<circ> snd) (filter (solved sv) (enumerate 0 fleet))"
proof -
  from optimize_routes_ok [OF assms(2), of w]
  obtain rm where rm: "optimize_routes sv fleet w =
      Some (Inr (w\<lparr>files := (files w)(''optimized_route.html'' \<mapsto> rm),
                         stdout := stdout w @ [saved_message]\<rparr>))"
      "html_children rm = [map truck_box (filter (solved sv) (enumerate 0 fleet))]"
      "list_all2 (truck_polyline sv) (filter (solved sv) (enumerate 0 fleet)) (polylines rm)"
    by blast
  have "map truck (concat (html_children rm)) =
      map truck (map truck_box (filter (solved sv) (enumerate 0 fleet)))"
    unfolding rm(2) by simp
  then have names: "map truck (concat (html_children rm)) =
        map (fst \<circ> snd) (filter (solved sv) (enumerate 0 fleet))"
    by (simp only: truck_box_name)
  have colors: "map line_color (polylines rm) =
        map (color \<circ> snd \<circ> snd) (filter (solved sv) (enumerate 0 fleet))"
    using truck_polyline_color[OF rm(3)] .
  show ?thesis
    using names colors rm(3)
    by (intro exI[of _ "w\<lparr>files := (files w)(''optimized_route.html'' \<mapsto> rm),
                         stdout := stdout w @ [saved_message]\<rparr>"] exI[of _ rm])
       (simp add: rm(1,2))
qed

text \<open>
  The source's fleet, with no solution for the second truck.
\<close>

theorem optimize_routes_skips_unsolved_trucks_witness:
  "\<exists>w' rm. optimize_routes services_second_unsolved trucks empty_world = Some (Inr w') \<and>
      files w' ''optimized_route.html'' = Some rm \<and>
      stdout w' = [saved_message] \<and>
      concat (html_children rm) =
        [summary_box ''Truck 1 (Markham)'' ''top: 10px; right: 10px;''] \<and>
      map truck (concat (html_children rm)) = [''Truck 1 (Markham)''] \<and>
      map line_color (polylines rm) = [''blue'']"
proof -
  have sol: "filter (solved services_second_unsolved) (enumerate 0 trucks) =
      [(0, trucks ! 0)]"
    by (simp add: solved_def answer_second_unsolved trucks_def coords_markham
        coords_richmondhill)
  from optimize_routes_skips_unsolved_trucks [OF stops_trucks contract_second_unsolved,
      of empty_world]
  obtain w' rm where r:
    "optimize_routes services_second_unsolved trucks empty_world = Some (Inr w')"
    "files w' ''optimized_route.html'' = Some rm"
    "stdout w' = stdout empty_world @ [saved_message]"
    "concat (html_children rm) =
       map truck_box (filter (solved services_second_unsolved) (enumerate 0 trucks))"
    "map truck (concat (html_children rm)) =
       map (fst \<circ> snd) (filter (solved services_second_unsolved) (enumerate 0 trucks))"
    "map line_color (polylines rm) =
       map (color \<circ> snd \<circ> snd)
         (filter (solved services_second_unsolved) (enumerate 0 trucks))"
    by blast
  show ?thesis
    using r unfolding sol
    by (intro exI[of _ w'] exI[of _ rm]) (simp add: trucks_def empty_world_def truck_box_def)
qed

text \<open>
  C5 as stated fails: with no solution for the second truck, the whole output of the run
  (the saved map and the printed line) holds nothing about that truck, and is the output of
  the run on the fleet without it.
\<close>

theorem optimize_routes_names_no_failed_truck:
  "solver_answer services_second_unsolved 1 (snd (trucks ! 1)) = Inr None \<and>
   optimize_routes services_second_unsolved trucks empty_world =
     Some (Inr \<lparr>files = [''optimized_route.html'' \<mapsto>
       \<lparr>center = (43.89, -79.39), zoom_start = 12,
        polylines =
          [\<lparr>points = [(43.8563, -79.3370), (43.8643, -79.3021), (43.8576, -79.2813),
                      (43.9191, -79.3190), (43.8952, -79.2443)],
            line_color = ''blue'', weight = 5, opacity = 0.7\<rparr>],
        html_children =
          [[summary_box ''Truck 1 (Markham)'' ''top: 10px; right: 10px;'']]\<rparr>],
      stdout = [saved_message]\<rparr>) \<and>
   optimize_routes services_second_unsolved trucks empty_world =
     optimize_routes services_second_unsolved [hd trucks] empty_world"
proof -
  have unsolved: "solver_answer services_second_unsolved 1 (snd (trucks ! 1)) = Inr None"
    by (simp add: answer_second_unsolved trucks_def coords_richmondhill)
  have run: "optimize_routes services_second_unsolved fleet empty_world =
     Some (Inr \<lparr>files = [''optimized_route.html'' \<mapsto>
       \<lparr>center = (43.89, -79.39), zoom_start = 12,
        polylines =
          [\<lparr>points = [(43.8563, -79.3370), (43.8643, -79.3021), (43.8576, -79.2813),
                      (43.9191, -79.3190), (43.8952, -79.2443)],
            line_color = ''blue'', weight = 5, opacity = 0.7\<rparr>],
        html_children =
          [[summary_box ''Truck 1 (Markham)'' ''top: 10px; right: 10px;'']]\<rparr>],
      stdout = [saved_message]\<rparr>)"
    if "fleet = trucks \<or> fleet = [hd trucks]" for fleet
    using that
    by (auto simp: optimize_routes_def trucks_def truck_iteration_def
      services_second_unsolved_def library_model_def
      filtered_bins_def keep_bin_def get_fill_def FILL_THRESHOLD_def
      markham_locations_def markham_bin_fill_levels_def richmondhill_locations_def
      richmondhill_bin_fill_levels_def get_distance_matrix_eq create_routing_model_def no_overflow_1500
      route_loop.simps enumerate_eq_zip empty_world_def folium_Map_def Let_def)
  show ?thesis
    using unsolved run [of trucks] run [of "[hd trucks]"] by simp
qed

text \<open>
  C9, as amended. \<open>optimize_routes\<close> returns nothing. For every fleet whose trucks each
  keep at least one stop, when the solver does not raise and its solutions are tours, the
  run leaves the world as it was except for two effects: one line is printed, and the file
  \<open>optimized_route.html\<close> holds the rendered map, which is the map centred as the code
  centres it, with the polyline of each solved truck and one element with their summary
  boxes, in the order of the fleet.
\<close>

theorem optimize_routes_writes_file_and_prints:
  assumes "list_all (\<lambda>(name, td). location_coords_of td \<noteq> []) fleet"
    and "list_all (\<lambda>(idx, name, td). solver_contract sv idx td) (enumerate 0 fleet)"
  shows "\<exists>pls. list_all2 (truck_polyline sv) (filter (solved sv) (enumerate 0 fleet)) pls \<and>
      optimize_routes sv fleet w =
      Some (Inr (w\<lparr>files := (files w)(''optimized_route.html'' \<mapsto>
                    \<lparr>center = (43.89, -79.39), zoom_start = 12, polylines = pls,
                     html_children =
                       [map truck_box (filter (solved sv) (enumerate 0 fleet))]\<rparr>),
                  stdout := stdout w @ [saved_message]\<rparr>))"
proof -
  from optimize_routes_ok [OF assms(2), of w]
  obtain rm where rm: "optimize_routes sv fleet w =
      Some (Inr (w\<lparr>files := (files w)(''optimized_route.html'' \<mapsto> rm),
                         stdout := stdout w @ [saved_message]\<rparr>))"
      "center rm = (43.89, -79.39)" "zoom_start rm = 12"
      "html_children rm = [map truck_box (filter (solved sv) (enumerate 0 fleet))]"
      "list_all2 (truck_polyline sv) (filter (solved sv) (enumerate 0 fleet)) (polylines rm)"
    by blast
  have "rm = \<lparr>center = (43.89, -79.39), zoom_start = 12, polylines = polylines rm,
      html_children = [map truck_box (filter (solved sv) (enumerate 0 fleet))]\<rparr>"
    using rm(2-4) by (cases rm) simp
  with rm(1,5) show ?thesis
    by (intro exI[of _ "polylines rm"]) simp
qed

text \<open>
  The source's fleet, in a world with another file and an earlier line of output: both are
  kept, and the saved map holds the two routes and the two summary boxes.
\<close>

theorem optimize_routes_writes_file_and_prints_witness:
  "\<exists>pls. map points pls =
        [[(43.8563, -79.3370), (43.8643, -79.3021), (43.8576, -79.2813),
          (43.9191, -79.3190), (43.8952, -79.2443)],
         [(43.8783, -79.4402), (43.9021, -79.4121), (43.9165, -79.4355),
          (43.8819, -79.4525), (43.8565, -79.4700)]] \<and>
      map line_color pls = [''blue'', ''red''] \<and>
      optimize_routes services_all_solved trucks busy_world =
      Some (Inr \<lparr>files = [''notes.html'' \<mapsto> folium_Map (0, 0) 1,
                         ''optimized_route.html'' \<mapsto>
                    \<lparr>center = (43.89, -79.39), zoom_start = 12, polylines = pls,
                     html_children =
                       [[summary_box ''Truck 1 (Markham)'' ''top: 10px; right: 10px;'',
                         summary_box ''Truck 2 (Richmond Hill)''
                           ''bottom: 10px; right: 10px;'']]\<rparr>],
                stdout = [''started'', saved_message]\<rparr>)"
proof -
  from optimize_routes_writes_file_and_prints [OF stops_trucks contract_all_solved,
      of busy_world]
  obtain pls where pls:
    "list_all2 (truck_polyline services_all_solved)
       (filter (solved services_all_solved) (enumerate 0 trucks)) pls"
    and run: "optimize_routes services_all_solved trucks busy_world =
      Some (Inr (busy_world\<lparr>files := (files busy_world)(''optimized_route.html'' \<mapsto>
                    \<lparr>center = (43.89, -79.39), zoom_start = 12, polylines = pls,
                     html_children =
                       [map truck_box (filter (solved services_all_solved)
                          (enumerate 0 trucks))]\<rparr>),
                  stdout := stdout busy_world @ [saved_message]\<rparr>))"
    by blast
  have sol: "filter (solved services_all_solved) (enumerate 0 trucks) = enumerate 0 trucks"
    by (simp add: solved_def answer_all_solved trucks_def coords_markham coords_richmondhill)
  from pls obtain p1 p2 where p: "pls = [p1, p2]"
    "truck_polyline services_all_solved (0, trucks ! 0) p1"
    "truck_polyline services_all_solved (1, trucks ! 1) p2"
    unfolding sol by (auto simp: trucks_def list_all2_Cons1)
  have pw: "pywrapcp services_all_solved = library_model"
    by (simp add: services_all_solved_def)
  have p1: "points p1 = [(43.8563, -79.3370), (43.8643, -79.3021), (43.8576, -79.2813),
          (43.9191, -79.3190), (43.8952, -79.2443)]" "line_color p1 = ''blue''"
    using p(2)
    by (simp_all add: truck_polyline_def answer_all_solved trucks_def coords_markham
        pw library_model_def route_loop.simps)
  have p2: "points p2 = [(43.8783, -79.4402), (43.9021, -79.4121), (43.9165, -79.4355),
          (43.8819, -79.4525), (43.8565, -79.4700)]" "line_color p2 = ''red''"
    using p(3)
    by (simp_all add: truck_polyline_def answer_all_solved trucks_def coords_richmondhill
        pw library_model_def route_loop.simps)
  have run': "optimize_routes services_all_solved trucks busy_world =
      Some (Inr \<lparr>files = [''notes.html'' \<mapsto> folium_Map (0, 0) 1,
                         ''optimized_route.html'' \<mapsto>
                    \<lparr>center = (43.89, -79.39), zoom_start = 12, polylines = pls,
                     html_children =
                       [[summary_box ''Truck 1 (Markham)'' ''top: 10px; right: 10px;'',
                         summary_box ''Truck 2 (Richmond Hill)''
                           ''bottom: 10px; right: 10px;'']]\<rparr>],
                stdout = [''started'', saved_message]\<rparr>)"
    unfolding run sol by (simp add: busy_world_def trucks_def truck_box_def)
  show ?thesis
    using p(1) p1 p2 run' by (intro exI[of _ pls]) simp
qed

text \<open>
  C9 as stated fails: the run on the first truck of the source's fleet, from a world
  with no file and no output, leaves the rendered map in \<open>optimized_route.html\<close> and a
  printed line.
\<close>

theorem optimize_routes_saves_map:
  "files empty_world ''optimized_route.html'' = None \<and>
   stdout empty_world = [] \<and>
   optimize_routes services_all_solved [hd trucks] empty_world =
     Some (Inr \<lparr>files = [''optimized_route.html'' \<mapsto>
       \<lparr>center = (43.89, -79.39), zoom_start = 12,
        polylines =
          [\<lparr>points = [(43.8563, -79.3370), (43.8643, -79.3021), (43.8576, -79.2813),
                      (43.9191, -79.3190), (43.8952, -79.2443)],
            line_color = ''blue'', weight = 5, opacity = 0.7\<rparr>],
        html_children =
          [[summary_box ''Truck 1 (Markham)'' ''top: 10px; right: 10px;'']]\<rparr>],
      stdout = [saved_message]\<rparr>)"
  by (simp add: optimize_routes_def trucks_def truck_iteration_def
      services_all_solved_def library_model_def
      filtered_bins_def keep_bin_def get_fill_def FILL_THRESHOLD_def
      markham_locations_def markham_bin_fill_levels_def
      get_distance_matrix_eq create_routing_model_def no_overflow_1500
      route_loop.simps enumerate_eq_zip empty_world_def folium_Map_def Let_def)

end
